theory Spec2Isabelle
  imports Complex_Main
begin

section \<open>Floating-point values\<close>

text \<open>
  A NumPy float is a real number, one of the two infinities, or NaN. Arithmetic follows
  IEEE 754 on the non-finite values; on finite values it is exact real arithmetic
  (rounding, overflow and the sign of zero are not modelled: a zero is \<open>+0.0\<close>).
\<close>

datatype npfloat = Finite real | PosInf | NegInf | NaN

fun isfinite :: "npfloat \<Rightarrow> bool" where
  "isfinite (Finite r) = True"
| "isfinite PosInf = False"
| "isfinite NegInf = False"
| "isfinite NaN = False"

text \<open>The comparison \<open>a < b\<close>: every comparison with NaN is false.\<close>

fun flt :: "npfloat \<Rightarrow> npfloat \<Rightarrow> bool" where
  "flt (Finite a) (Finite b) = (a < b)"
| "flt (Finite a) PosInf = True"
| "flt NegInf (Finite b) = True"
| "flt NegInf PosInf = True"
| "flt a b = False"

definition fgt :: "npfloat \<Rightarrow> npfloat \<Rightarrow> bool" where
  "fgt a b = flt b a"

fun fneg :: "npfloat \<Rightarrow> npfloat" where
  "fneg (Finite a) = Finite (- a)"
| "fneg PosInf = NegInf"
| "fneg NegInf = PosInf"
| "fneg NaN = NaN"

fun fadd :: "npfloat \<Rightarrow> npfloat \<Rightarrow> npfloat" where
  "fadd NaN b = NaN"
| "fadd a NaN = NaN"
| "fadd (Finite a) (Finite b) = Finite (a + b)"
| "fadd PosInf NegInf = NaN"
| "fadd NegInf PosInf = NaN"
| "fadd PosInf b = PosInf"
| "fadd NegInf b = NegInf"
| "fadd (Finite a) PosInf = PosInf"
| "fadd (Finite a) NegInf = NegInf"

definition fsub :: "npfloat \<Rightarrow> npfloat \<Rightarrow> npfloat" where
  "fsub a b = fadd a (fneg b)"

text \<open>The infinity with the sign of \<open>pos\<close>.\<close>

definition signed_inf :: "bool \<Rightarrow> npfloat" where
  "signed_inf pos = (if pos then PosInf else NegInf)"

fun fmul :: "npfloat \<Rightarrow> npfloat \<Rightarrow> npfloat" where
  "fmul NaN b = NaN"
| "fmul a NaN = NaN"
| "fmul (Finite a) (Finite b) = Finite (a * b)"
| "fmul (Finite a) PosInf = (if a = 0 then NaN else signed_inf (0 < a))"
| "fmul (Finite a) NegInf = (if a = 0 then NaN else signed_inf (a < 0))"
| "fmul PosInf (Finite b) = (if b = 0 then NaN else signed_inf (0 < b))"
| "fmul NegInf (Finite b) = (if b = 0 then NaN else signed_inf (b < 0))"
| "fmul PosInf PosInf = PosInf"
| "fmul NegInf NegInf = PosInf"
| "fmul PosInf NegInf = NegInf"
| "fmul NegInf PosInf = NegInf"

text \<open>
  NumPy's float division does not raise: a finite non-zero value over zero is an infinity,
  zero over zero is NaN.
\<close>

fun fdiv :: "npfloat \<Rightarrow> npfloat \<Rightarrow> npfloat" where
  "fdiv NaN b = NaN"
| "fdiv a NaN = NaN"
| "fdiv (Finite a) (Finite b) =
     (if b = 0 then (if a = 0 then NaN else signed_inf (0 < a)) else Finite (a / b))"
| "fdiv (Finite a) PosInf = Finite 0"
| "fdiv (Finite a) NegInf = Finite 0"
| "fdiv PosInf (Finite b) = signed_inf (0 \<le> b)"
| "fdiv NegInf (Finite b) = signed_inf (b < 0)"
| "fdiv PosInf b = NaN"
| "fdiv NegInf b = NaN"

section \<open>Arrays, errors and slices\<close>

text \<open>
  A one-dimensional float array is a list. The moment orders \<open>q\<close> may come in any shape:
  they are given here by their elements in row-major order, which is the order in which
  boolean-mask selection and \<open>flatten\<close> deliver them. The fluctuation matrix is held
  by its columns, column \<open>j\<close> being the fluctuation function of the \<open>j\<close>-th moment order,
  so that \<open>mfdfa.shape[1]\<close> is the number of columns and \<open>mfdfa[a:b, j]\<close> is a slice of
  column \<open>j\<close>. The window sizes \<open>lag\<close> are integers. The fit range \<open>lim\<close> is a pair of
  optional integers, \<open>None\<close> being Python's \<open>None\<close>; the parameter is written
  \<open>lims\<close> below.
\<close>

type_synonym array = "npfloat list"
type_synonym matrix = "npfloat list list"
type_synonym lim = "int option \<times> int option"

text \<open>
  The exceptions of the line fit (\<open>numpy.polynomial.polynomial.polyfit\<close>): \<open>TypeError\<close>
  for an empty vector or vectors of different lengths, \<open>LinAlgError\<close> from the solver.
\<close>

datatype fit_error = TypeError | LinAlgError

text \<open>
  The exceptions of the module. Three of them are \<open>ValueError\<close> in Python, told apart
  by their message: \<open>DomainError\<close> ("array must not contain infs or NaNs", raised by
  \<open>np.asarray_chkfinite\<close>), \<open>DimensionMismatch\<close> ("Fluctuation function and q powers
  don't match in dimension.") and \<open>GradientError\<close> ("Shape of array too small to calculate
  a numerical gradient", raised by \<open>np.gradient\<close>).
\<close>

datatype error = DomainError | DimensionMismatch | GradientError | IndexError
  | FitError fit_error

text \<open>
  The line fit is a library call. \<open>fit x y\<close> stands for
  \<open>polyfit(np.log(x), np.log(y), 1)[1]\<close>, the slope of the least-squares line through the
  logarithms; every function below takes it as a parameter, so that what is proved holds
  whatever the library computes.
\<close>

type_synonym fit = "int list \<Rightarrow> array \<Rightarrow> fit_error + npfloat"

text \<open>\<open>xs[i]\<close> for an index \<open>i \<ge> 0\<close>.\<close>

definition getitem :: "'a list \<Rightarrow> nat \<Rightarrow> error + 'a" where
  "getitem xs i = (if i < length xs then Inr (xs ! i) else Inl IndexError)"

text \<open>
  A bound of a Python slice on a sequence of length \<open>n\<close>: \<open>None\<close> is the default \<open>d\<close>,
  a negative bound counts from the end, and every bound is clipped to \<open>0..n\<close>.
\<close>

definition slice_bound :: "nat \<Rightarrow> int option \<Rightarrow> nat \<Rightarrow> nat" where
  "slice_bound n b d =
     (case b of
        None \<Rightarrow> d
      | Some i \<Rightarrow> if i < 0 then nat (max (int n + i) 0) else min (nat i) n)"

text \<open>\<open>xs[lo:hi]\<close>; it is empty when the upper bound is not above the lower one.\<close>

definition py_slice :: "int option \<Rightarrow> int option \<Rightarrow> 'a list \<Rightarrow> 'a list" where
  "py_slice lo hi xs =
     (let n = length xs; a = slice_bound n lo 0; b = slice_bound n hi n
      in take (b - a) (drop a xs))"

text \<open>
  \<open>np.asarray_chkfinite(a, dtype=float)\<close>: the array as floats, or \<open>ValueError\<close> when
  an entry is NaN or infinite.
\<close>

definition asarray_chkfinite :: "array \<Rightarrow> error + array" where
  "asarray_chkfinite a = (if list_all isfinite a then Inr a else Inl DomainError)"

section \<open>The moment-order cleaner\<close>

text \<open>
  \<^verbatim>\<open>
  def _clean_q(q):
      q = np.asarray_chkfinite(q, dtype=np.float)
      q = q[(q < -.1) + (q > .1)]
      q = q.flatten()
      return q
  \<close>
  The sum of the two boolean masks is their disjunction; \<open>np.float\<close> is Python's
  \<open>float\<close> (NumPy before 1.24); \<open>flatten\<close> of the one-dimensional selection is a copy.
\<close>

definition clean_q :: "array \<Rightarrow> error + array" where
  "clean_q q =
     (case asarray_chkfinite q of
        Inl e \<Rightarrow> Inl e
      | Inr q1 \<Rightarrow>
          Inr (filter (\<lambda>v. flt v (Finite (- (1 / 10))) \<or> fgt v (Finite (1 / 10))) q1))"

section \<open>Element-wise arithmetic and the numerical gradient\<close>

text \<open>
  The element-wise operations of two arrays. The module applies them to arrays of one
  length only (the slopes are allocated with the length of \<open>q\<close>, the gradients are taken
  of arrays of one length), where NumPy pairs the elements by index.
\<close>

definition arr_mul :: "array \<Rightarrow> array \<Rightarrow> array" where
  "arr_mul xs ys = map2 fmul xs ys"

definition arr_sub :: "array \<Rightarrow> array \<Rightarrow> array" where
  "arr_sub xs ys = map2 fsub xs ys"

definition arr_div :: "array \<Rightarrow> array \<Rightarrow> array" where
  "arr_div xs ys = map2 fdiv xs ys"

text \<open>
  \<open>np.gradient(f)\<close> of a one-dimensional array with the default unit spacing and
  \<open>edge_order=1\<close>:
  \<^verbatim>\<open>
  out[1:-1] = (f[2:] - f[:-2]) / (2. * dx)
  out[0]    = (f[1] - f[0]) / dx
  out[-1]   = (f[-1] - f[-2]) / dx
  \<close>
  with \<open>dx = 1.0\<close>; it raises \<open>ValueError\<close> on fewer than two elements.
\<close>

definition gradient :: "array \<Rightarrow> error + array" where
  "gradient f =
     (let n = length f in
      if n < 2 then Inl GradientError
      else Inr ([fdiv (fsub (f ! 1) (f ! 0)) (Finite 1)]
                @ map2 (\<lambda>a b. fdiv (fsub a b) (Finite 2)) (drop 2 f) (take (n - 2) f)
                @ [fdiv (fsub (f ! (n - 1)) (f ! (n - 2))) (Finite 1)]))"

section \<open>The slope estimator\<close>

text \<open>
  The loop of \<open>_slopes\<close> over \<open>range(len(q))\<close>:
  \<^verbatim>\<open>
  for i in range(len(q)):
      slopes[i] = polyfit(np.log(lag[lim[0]:lim[1]]),
                          np.log(mfdfa[lim[0]:lim[1], i]), 1)[1]
  \<close>
  The first fit that raises ends the loop with its exception.
\<close>

fun fit_loop :: "fit \<Rightarrow> int list \<Rightarrow> matrix \<Rightarrow> lim \<Rightarrow> nat list \<Rightarrow> error + array" where
  "fit_loop fit lag mfdfa lims [] = Inr []"
| "fit_loop fit lag mfdfa lims (i # is) =
     (case fit (py_slice (fst lims) (snd lims) lag)
               (py_slice (fst lims) (snd lims) (mfdfa ! i)) of
        Inl e \<Rightarrow> Inl (FitError e)
      | Inr s \<Rightarrow>
          (case fit_loop fit lag mfdfa lims is of
             Inl e \<Rightarrow> Inl e
           | Inr ss \<Rightarrow> Inr (s # ss)))"

text \<open>
  \<^verbatim>\<open>
  def _slopes(lag, mfdfa, q, lim=[None, None], interpolate=False):
      if lim[0] is None and lim[1] is None:
          lim = [lag[1], lag[lag.size//2]]
      q = _clean_q(q)
      q = np.asarray_chkfinite(q, dtype=float)
      if mfdfa.shape[1] != q.shape[0]:
          raise ValueError("Fluctuation function and q powers don't match in dimension.")
      slopes = np.zeros(len(q))
      for i in range(len(q)): ...
      return slopes
  \<close>
  With both limits unset the bounds are the window sizes \<open>lag[1]\<close> and
  \<open>lag[lag.size//2]\<close> themselves; reading them raises \<open>IndexError\<close> on a \<open>lag\<close>
  that is too short.
\<close>

definition slopes :: "fit \<Rightarrow> int list \<Rightarrow> matrix \<Rightarrow> array \<Rightarrow> lim \<Rightarrow> int \<Rightarrow> error + array" where
  "slopes fit lag mfdfa q lims interpolate =
     (case (if fst lims = None \<and> snd lims = None
            then (case getitem lag 1 of
                    Inl e \<Rightarrow> Inl e
                  | Inr lo \<Rightarrow>
                      (case getitem lag (length lag div 2) of
                         Inl e \<Rightarrow> Inl e
                       | Inr hi \<Rightarrow> Inr (Some lo, Some hi)))
            else Inr lims) of
        Inl e \<Rightarrow> Inl e
      | Inr lim1 \<Rightarrow>
          (case clean_q q of
             Inl e \<Rightarrow> Inl e
           | Inr q1 \<Rightarrow>
               (case asarray_chkfinite q1 of
                  Inl e \<Rightarrow> Inl e
                | Inr q2 \<Rightarrow>
                    if length mfdfa \<noteq> length q2 then Inl DimensionMismatch
                    else fit_loop fit lag mfdfa lim1 [0..<length q2])))"

section \<open>The public operations\<close>

text \<open>
  The three public operations start alike:
  \<^verbatim>\<open>
  if lim[0] is None and lim[1] is None:
      lim = [1, lag.size//2]
  q = _clean_q(q)
  \<close>
  \<open>default_lim\<close> is the first of the two statements.
\<close>

definition default_lim :: "int list \<Rightarrow> lim \<Rightarrow> lim" where
  "default_lim lag lims =
     (if fst lims = None \<and> snd lims = None
      then (Some 1, Some (int (length lag div 2))) else lims)"

definition hurst_exponents ::
  "fit \<Rightarrow> int list \<Rightarrow> matrix \<Rightarrow> array \<Rightarrow> lim \<Rightarrow> int \<Rightarrow> error + (array \<times> array)" where
  "hurst_exponents fit lag mfdfa q lims interpolate =
     (let lim1 = default_lim lag lims
      in case clean_q q of
           Inl e \<Rightarrow> Inl e
         | Inr q1 \<Rightarrow>
             (case slopes fit lag mfdfa q1 lim1 interpolate of
                Inl e \<Rightarrow> Inl e
              | Inr hq \<Rightarrow> Inr (q1, hq)))"

text \<open>\<open>scaling_exponents\<close> returns \<open>q, (q * slopes) - 1\<close>.\<close>

definition scaling_exponents ::
  "fit \<Rightarrow> int list \<Rightarrow> matrix \<Rightarrow> array \<Rightarrow> lim \<Rightarrow> int \<Rightarrow> error + (array \<times> array)" where
  "scaling_exponents fit lag mfdfa q lims interpolate =
     (let lim1 = default_lim lag lims
      in case clean_q q of
           Inl e \<Rightarrow> Inl e
         | Inr q1 \<Rightarrow>
             (case slopes fit lag mfdfa q1 lim1 interpolate of
                Inl e \<Rightarrow> Inl e
              | Inr sl \<Rightarrow> Inr (q1, map (\<lambda>x. fsub x (Finite 1)) (arr_mul q1 sl))))"

text \<open>\<open>_falpha(tau, alpha, q)\<close> returns \<open>q * alpha - tau\<close>.\<close>

definition falpha :: "array \<Rightarrow> array \<Rightarrow> array \<Rightarrow> array" where
  "falpha tau alpha q = arr_sub (arr_mul q alpha) tau"

text \<open>
  \<^verbatim>\<open>
  _, tau = scaling_exponents(lag, mfdfa, q, lim, interpolate)
  alpha = np.gradient(tau) / np.gradient(q)
  f = _falpha(tau, alpha, q)
  return alpha, f
  \<close>
  after the common start; \<open>scaling_exponents\<close> is handed the cleaned \<open>q\<close> and the fit
  range already settled.
\<close>

definition singularity_spectrum ::
  "fit \<Rightarrow> int list \<Rightarrow> matrix \<Rightarrow> array \<Rightarrow> lim \<Rightarrow> int \<Rightarrow> error + (array \<times> array)" where
  "singularity_spectrum fit lag mfdfa q lims interpolate =
     (let lim1 = default_lim lag lims
      in case clean_q q of
           Inl e \<Rightarrow> Inl e
         | Inr q1 \<Rightarrow>
             (case scaling_exponents fit lag mfdfa q1 lim1 interpolate of
                Inl e \<Rightarrow> Inl e
              | Inr (q2, tau) \<Rightarrow>
                  (case gradient tau of
                     Inl e \<Rightarrow> Inl e
                   | Inr gtau \<Rightarrow>
                       (case gradient q1 of
                          Inl e \<Rightarrow> Inl e
                        | Inr gq \<Rightarrow>
                            (let alpha = arr_div gtau gq;
                                 f = falpha tau alpha q1
                             in Inr (alpha, f))))))"

section \<open>Example inputs\<close>

text \<open>
  The inputs on which the theorems below are run: six window sizes, a fluctuation
  function that is the square root of the window size in each of three columns, and
  four moment orders of which \<open>0.05\<close> is dropped by the cleaner.
  \<open>sample_fit\<close> is the line fit on these data: the argument checks of \<open>polyfit\<close>
  (\<open>TypeError\<close> for an empty vector and for vectors of different lengths) and the slope
  \<open>1/2\<close>, which is the slope of \<open>log F\<close> against \<open>log s\<close> on every window of two or
  more of these points.
\<close>

definition sample_fit :: fit where
  "sample_fit x y =
     (if x = [] \<or> length x \<noteq> length y then Inl TypeError else Inr (Finite (1 / 2)))"

definition sample_lag :: "int list" where
  "sample_lag = [16, 64, 256, 1024, 4096, 16384]"

definition sample_mfdfa :: matrix where
  "sample_mfdfa =
     [[Finite 4, Finite 8, Finite 16, Finite 32, Finite 64, Finite 128],
      [Finite 4, Finite 8, Finite 16, Finite 32, Finite 64, Finite 128],
      [Finite 4, Finite 8, Finite 16, Finite 32, Finite 64, Finite 128]]"

definition sample_q :: array where
  "sample_q = [Finite (- 2), Finite (5 / 100), Finite 2, Finite 4]"

section \<open>Properties of the cleaner\<close>

lemma asarray_chkfinite_Inr [simp]:
  "asarray_chkfinite a = Inr b \<longleftrightarrow> list_all isfinite a \<and> b = a"
  by (auto simp: asarray_chkfinite_def)

lemma asarray_chkfinite_Inl [simp]:
  "asarray_chkfinite a = Inl e \<longleftrightarrow> \<not> list_all isfinite a \<and> e = DomainError"
  by (auto simp: asarray_chkfinite_def)

lemma clean_q_Inr:
  "clean_q q = Inr qc \<longleftrightarrow>
     list_all isfinite q \<and>
     qc = filter (\<lambda>v. flt v (Finite (- (1 / 10))) \<or> fgt v (Finite (1 / 10))) q"
  by (auto simp: clean_q_def split: sum.splits)

lemma clean_q_Inl: "clean_q q = Inl e \<longleftrightarrow> \<not> list_all isfinite q \<and> e = DomainError"
  by (auto simp: clean_q_def split: sum.splits)

lemma clean_q_finite: "clean_q q = Inr qc \<Longrightarrow> list_all isfinite qc"
  by (auto simp: clean_q_Inr list_all_iff)

lemma clean_q_twice: "clean_q q = Inr qc \<Longrightarrow> clean_q qc = Inr qc"
  by (auto simp: clean_q_Inr list_all_iff)

lemma filter_keep_Finite:
  "filter (\<lambda>v. flt v (Finite (- (1 / 10))) \<or> fgt v (Finite (1 / 10))) (map Finite rs)
     = map Finite (filter (\<lambda>r. \<not> \<bar>r\<bar> \<le> 1 / 10) rs)"
  by (induction rs) (auto simp: fgt_def)

lemma clean_q_map_Finite:
  "clean_q (map Finite rs) = Inr (map Finite (filter (\<lambda>r. \<not> \<bar>r\<bar> \<le> 1 / 10) rs))"
  unfolding clean_q_Inr filter_keep_Finite by (simp add: list_all_iff)

text \<open>
  C4. On every sequence of finite values the cleaner returns the values \<open>v\<close> with
  \<open>\<bar>v\<bar> > 0.1\<close>, in their order, and drops exactly those with \<open>\<bar>v\<bar> \<le> 0.1\<close>; cleaning
  \<open>[-10, -0.05, 0.05, 10]\<close> gives \<open>[-10, 10]\<close>; and a sequence with no value of
  \<open>\<bar>v\<bar> \<le> 0.1\<close> comes back unchanged.
\<close>

theorem clean_q_threshold:
  "clean_q (map Finite rs) = Inr (map Finite (filter (\<lambda>r. \<not> \<bar>r\<bar> \<le> 1 / 10) rs))
   \<and> clean_q (map Finite [- 10, - (5 / 100), 5 / 100, 10]) = Inr (map Finite [- 10, 10])
   \<and> ((\<forall>r \<in> set rs. \<not> \<bar>r\<bar> \<le> 1 / 10) \<longrightarrow> clean_q (map Finite rs) = Inr (map Finite rs))"
proof -
  have a: "clean_q (map Finite rs) = Inr (map Finite (filter (\<lambda>r. \<not> \<bar>r\<bar> \<le> 1 / 10) rs))"
    by (rule clean_q_map_Finite)
  have b: "clean_q (map Finite [- 10, - (5 / 100), 5 / 100, 10]) = Inr (map Finite [- 10, 10])"
    unfolding clean_q_map_Finite by simp
  have "(\<forall>r \<in> set rs. \<not> \<bar>r\<bar> \<le> 1 / 10) \<Longrightarrow> filter (\<lambda>r. \<not> \<bar>r\<bar> \<le> 1 / 10) rs = rs"
    by (rule filter_True) blast
  then have c: "(\<forall>r \<in> set rs. \<not> \<bar>r\<bar> \<le> 1 / 10) \<longrightarrow> clean_q (map Finite rs) = Inr (map Finite rs)"
    unfolding clean_q_map_Finite by presburger
  from a b c show ?thesis by blast
qed

theorem clean_q_threshold_witness:
  "\<not> \<bar>- 3 :: real\<bar> \<le> 1 / 10 \<and> \<not> \<bar>1 / 2 :: real\<bar> \<le> 1 / 10 \<and> \<not> \<bar>7 :: real\<bar> \<le> 1 / 10
   \<and> clean_q (map Finite [- 3, 1 / 2, 7]) = Inr (map Finite [- 3, 1 / 2, 7])"
  using clean_q_threshold [of "[- 3, 1 / 2, 7]"] by simp

text \<open>
  C9. The cleaner is idempotent: on every sequence of finite values it returns, and
  cleaning what it returned gives the same result again.
\<close>

theorem clean_q_idempotent:
  assumes "list_all isfinite q"
  shows "\<exists>qc. clean_q q = Inr qc \<and> clean_q qc = clean_q q"
proof -
  obtain qc where 1: "clean_q q = Inr qc"
    using assms by (simp add: clean_q_Inr)
  have 2: "clean_q qc = Inr qc"
    by (rule clean_q_twice [OF 1])
  from 1 2 show ?thesis by simp
qed

theorem clean_q_idempotent_witness:
  "list_all isfinite [Finite (- 10), Finite (5 / 100), Finite 2]
   \<and> clean_q [Finite (- 10), Finite (5 / 100), Finite 2] = Inr [Finite (- 10), Finite 2]
   \<and> clean_q [Finite (- 10), Finite 2] = Inr [Finite (- 10), Finite 2]"
  using clean_q_idempotent [of "[Finite (- 10), Finite (5 / 100), Finite 2]"]
  by (simp add: clean_q_Inr fgt_def)

section \<open>Float division in the gradient quotient\<close>

lemma fdiv_one: "fdiv t (Finite 1) = t"
  by (cases t) (simp_all add: signed_inf_def)

lemma fdiv_half: "fdiv (fdiv t (Finite 2)) (fdiv d (Finite 2)) = fdiv t d"
  by (cases t; cases d)
    (auto simp: signed_inf_def zero_less_divide_iff divide_less_0_iff zero_le_divide_iff)

section \<open>The fit range and the fitting loop\<close>

lemma default_lim_given:
  "\<not> (fst lims = None \<and> snd lims = None) \<Longrightarrow> default_lim lag lims = lims"
  by (auto simp: default_lim_def)

lemma default_lim_set:
  "\<not> (fst (default_lim lag lims) = None \<and> snd (default_lim lag lims) = None)"
  by (simp add: default_lim_def)

lemma default_lim_idem: "default_lim lag (default_lim lag lims) = default_lim lag lims"
  by (simp add: default_lim_def)

lemma fit_loop_Inl: "fit_loop fit lag m lims js = Inl e \<Longrightarrow> \<exists>fe. e = FitError fe"
  by (induction js arbitrary: e) (auto split: sum.splits)

lemma fit_loop_length: "fit_loop fit lag m lims js = Inr ss \<Longrightarrow> length ss = length js"
  by (induction js arbitrary: ss) (auto split: sum.splits)

lemma fit_loop_nth:
  "fit_loop fit lag m lims js = Inr ss \<Longrightarrow> j < length js \<Longrightarrow>
     fit (py_slice (fst lims) (snd lims) lag) (py_slice (fst lims) (snd lims) (m ! (js ! j)))
       = Inr (ss ! j)"
proof (induction js arbitrary: ss j)
  case Nil
  then show ?case by simp
next
  case (Cons i js)
  then show ?case
    by (cases j) (auto split: sum.splits)
qed

text \<open>With a limit given, \<open>_slopes\<close> cleans, checks the dimension and fits.\<close>

lemma slopes_given:
  "\<not> (fst lims = None \<and> snd lims = None) \<Longrightarrow>
   slopes fit lag m q lims ip =
     (case clean_q q of
        Inl e \<Rightarrow> Inl e
      | Inr qc \<Rightarrow>
          if length m \<noteq> length qc then Inl DimensionMismatch
          else fit_loop fit lag m lims [0..<length qc])"
  by (auto simp: slopes_def split: sum.splits dest: clean_q_finite)

text \<open>With no limit given and two window sizes or more, the bounds are window sizes.\<close>

lemma slopes_unset:
  "2 \<le> length lag \<Longrightarrow>
   slopes fit lag m q (None, None) ip
     = slopes fit lag m q (Some (lag ! 1), Some (lag ! (length lag div 2))) ip"
proof -
  assume "2 \<le> length lag"
  then have "1 < length lag" and "length lag div 2 < length lag"
    by arith+
  then show ?thesis
    by (simp add: slopes_def getitem_def)
qed

lemma slopes_cleaned:
  "clean_q q = Inr qc \<Longrightarrow> slopes fit lag m qc lims ip = slopes fit lag m q lims ip"
  by (simp add: slopes_def clean_q_twice cong: sum.case_cong)

lemma slopes_lengths:
  assumes "clean_q q = Inr qc" and "slopes fit lag m q lims ip = Inr h"
  shows "length h = length qc \<and> length m = length qc"
  using assms
  by (auto simp: slopes_def clean_q_twice split: sum.splits if_splits
      dest: fit_loop_length clean_q_finite)

section \<open>The public operations in terms of the slope estimator\<close>

lemma hurst_exponents_eq:
  "hurst_exponents fit lag m q lims ip =
     (case clean_q q of
        Inl e \<Rightarrow> Inl e
      | Inr qc \<Rightarrow>
          (case slopes fit lag m q (default_lim lag lims) ip of
             Inl e \<Rightarrow> Inl e
           | Inr h \<Rightarrow> Inr (qc, h)))"
  by (simp add: hurst_exponents_def slopes_cleaned split: sum.splits)

lemma scaling_exponents_eq:
  "scaling_exponents fit lag m q lims ip =
     (case clean_q q of
        Inl e \<Rightarrow> Inl e
      | Inr qc \<Rightarrow>
          (case slopes fit lag m q (default_lim lag lims) ip of
             Inl e \<Rightarrow> Inl e
           | Inr h \<Rightarrow> Inr (qc, map (\<lambda>x. fsub x (Finite 1)) (arr_mul qc h))))"
  by (simp add: scaling_exponents_def slopes_cleaned split: sum.splits)

lemma scaling_exponents_cleaned:
  "clean_q q = Inr qc \<Longrightarrow>
   scaling_exponents fit lag m qc (default_lim lag lims) ip
     = scaling_exponents fit lag m q lims ip"
  by (simp add: scaling_exponents_eq clean_q_twice slopes_cleaned default_lim_idem)

lemma scaling_exponents_Inr:
  assumes "scaling_exponents fit lag m q lims ip = Inr (qc, tau)"
  shows "clean_q q = Inr qc \<and> length tau = length qc
         \<and> (\<exists>h. slopes fit lag m q (default_lim lag lims) ip = Inr h \<and> length h = length qc
                \<and> tau = map (\<lambda>x. fsub x (Finite 1)) (arr_mul qc h))"
proof -
  from assms obtain q1 h where c: "clean_q q = Inr q1"
    and s: "slopes fit lag m q (default_lim lag lims) ip = Inr h"
    and r: "(qc, tau) = (q1, map (\<lambda>x. fsub x (Finite 1)) (arr_mul q1 h))"
    unfolding scaling_exponents_eq by (auto split: sum.splits)
  from slopes_lengths [OF c s] have l: "length h = length q1" by simp
  from r l c s show ?thesis
    by (auto simp: arr_mul_def)
qed

lemma singularity_spectrum_eq:
  assumes "clean_q q = Inr qc"
  shows "singularity_spectrum fit lag m q lims ip =
     (case scaling_exponents fit lag m q lims ip of
        Inl e \<Rightarrow> Inl e
      | Inr (q2, tau) \<Rightarrow>
          (case gradient tau of
             Inl e \<Rightarrow> Inl e
           | Inr gtau \<Rightarrow>
               (case gradient qc of
                  Inl e \<Rightarrow> Inl e
                | Inr gq \<Rightarrow> Inr (arr_div gtau gq, falpha tau (arr_div gtau gq) qc))))"
  using assms
  by (simp add: singularity_spectrum_def scaling_exponents_cleaned Let_def
        cong: sum.case_cong prod.case_cong)

section \<open>The numerical gradient\<close>

lemma gradient_Inl: "gradient f = Inl e \<longleftrightarrow> length f < 2 \<and> e = GradientError"
  by (auto simp: gradient_def Let_def)

lemma gradient_length: "gradient f = Inr g \<Longrightarrow> length g = length f"
  by (auto simp: gradient_def Let_def split: if_splits)

lemma gradient_Inr:
  assumes "2 \<le> length f"
  shows "\<exists>g. gradient f = Inr g \<and> length g = length f
           \<and> g ! 0 = fdiv (fsub (f ! 1) (f ! 0)) (Finite 1)
           \<and> g ! (length f - 1)
               = fdiv (fsub (f ! (length f - 1)) (f ! (length f - 2))) (Finite 1)
           \<and> (\<forall>i. 0 < i \<and> i + 1 < length f \<longrightarrow>
                 g ! i = fdiv (fsub (f ! (i + 1)) (f ! (i - 1))) (Finite 2))"
proof -
  define mid where
    "mid = map2 (\<lambda>a b. fdiv (fsub a b) (Finite 2)) (drop 2 f) (take (length f - 2) f)"
  define a where "a = fdiv (fsub (f ! 1) (f ! 0)) (Finite 1)"
  define b where "b = fdiv (fsub (f ! (length f - 1)) (f ! (length f - 2))) (Finite 1)"
  define g where "g = [a] @ mid @ [b]"
  have len_mid: "length mid = length f - 2"
    by (simp add: mid_def)
  have eq: "gradient f = Inr g"
    using assms by (simp add: gradient_def Let_def g_def mid_def a_def b_def)
  have len: "length g = length f"
    using assms by (simp add: g_def len_mid)
  have first: "g ! 0 = a"
    by (simp add: g_def)
  have "g = (a # mid) @ [b]"
    by (simp add: g_def)
  moreover have "length (a # mid) = length f - 1"
    using assms len_mid by simp
  ultimately have last: "g ! (length f - 1) = b"
    by (metis nth_append_length)
  have inner: "g ! i = fdiv (fsub (f ! (i + 1)) (f ! (i - 1))) (Finite 2)"
    if "0 < i" and "i + 1 < length f" for i
  proof -
    have lt: "i - 1 < length f - 2"
      using that by arith
    have "g ! i = (mid @ [b]) ! (i - 1)"
      using that by (simp add: g_def nth_Cons')
    also have "\<dots> = mid ! (i - 1)"
      using lt len_mid by (simp add: nth_append)
    also have "\<dots> = fdiv (fsub (drop 2 f ! (i - 1)) (take (length f - 2) f ! (i - 1))) (Finite 2)"
      using lt by (simp add: mid_def)
    also have "drop 2 f ! (i - 1) = f ! (i + 1)"
      using that by simp
    also have "take (length f - 2) f ! (i - 1) = f ! (i - 1)"
      using lt by simp
    finally show ?thesis .
  qed
  show ?thesis
    using eq len first last inner unfolding a_def b_def by blast
qed

lemma falpha_length:
  "length tau = length q \<Longrightarrow> length alpha = length q \<Longrightarrow>
   length (falpha tau alpha q) = length q"
  by (simp add: falpha_def arr_sub_def arr_mul_def)

lemma falpha_nth:
  "length tau = length q \<Longrightarrow> length alpha = length q \<Longrightarrow> i < length q \<Longrightarrow>
   falpha tau alpha q ! i = fsub (fmul (q ! i) (alpha ! i)) (tau ! i)"
  by (simp add: falpha_def arr_sub_def arr_mul_def)

lemma singularity_spectrum_Inr:
  assumes "singularity_spectrum fit lag m q lims ip = Inr (alpha, f)"
  shows "\<exists>qc tau. clean_q q = Inr qc
           \<and> scaling_exponents fit lag m q lims ip = Inr (qc, tau)
           \<and> f = falpha tau alpha qc
           \<and> length alpha = length qc \<and> length f = length qc"
proof -
  from assms obtain qc where c: "clean_q q = Inr qc"
    by (auto simp: singularity_spectrum_def split: sum.splits)
  from assms obtain q2 tau gt gq where
    s: "scaling_exponents fit lag m q lims ip = Inr (q2, tau)"
    and gt: "gradient tau = Inr gt" and gq: "gradient qc = Inr gq"
    and r: "alpha = arr_div gt gq" "f = falpha tau alpha qc"
    unfolding singularity_spectrum_eq [OF c] by (auto split: sum.splits prod.splits)
  from scaling_exponents_Inr [OF s] c have q2: "q2 = qc" and lt: "length tau = length qc"
    by simp_all
  have la: "length alpha = length qc"
    using gradient_length [OF gt] gradient_length [OF gq] lt by (simp add: r(1) arr_div_def)
  have lf: "length f = length qc"
    unfolding r(2) by (rule falpha_length [OF lt la])
  from c s q2 r(2) la lf show ?thesis by blast
qed

section \<open>The operations on the example inputs\<close>

lemma sample_clean: "clean_q sample_q = Inr [Finite (- 2), Finite 2, Finite 4]"
  by (simp add: clean_q_Inr sample_q_def fgt_def)

lemma sample_default: "default_lim sample_lag (None, None) = (Some 1, Some 3)"
  by (simp add: default_lim_def sample_lag_def)

lemma sample_columns:
  "length sample_mfdfa = 3"
  "sample_mfdfa ! 0 = [Finite 4, Finite 8, Finite 16, Finite 32, Finite 64, Finite 128]"
  "sample_mfdfa ! Suc 0 = [Finite 4, Finite 8, Finite 16, Finite 32, Finite 64, Finite 128]"
  "sample_mfdfa ! Suc (Suc 0) = [Finite 4, Finite 8, Finite 16, Finite 32, Finite 64, Finite 128]"
  by (simp_all add: sample_mfdfa_def)

lemma sample_slice_lag:
  "py_slice (Some 1) (Some 3) sample_lag = [64, 256]"
  "py_slice None (Some 3) sample_lag = [16, 64, 256]"
  "py_slice (Some 64) (Some 1024) sample_lag = []"
  by (simp_all add: py_slice_def slice_bound_def sample_lag_def)

lemma sample_slice_column:
  "py_slice (Some 1) (Some 3) [Finite 4, Finite 8, Finite 16, Finite 32, Finite 64, Finite 128]
     = [Finite 8, Finite 16]"
  "py_slice None (Some 3) [Finite 4, Finite 8, Finite 16, Finite 32, Finite 64, Finite 128]
     = [Finite 4, Finite 8, Finite 16]"
  "py_slice (Some 64) (Some 1024)
     [Finite 4, Finite 8, Finite 16, Finite 32, Finite 64, Finite 128] = []"
  by (simp_all add: py_slice_def slice_bound_def)

lemma sample_fit_windows:
  "sample_fit [64, 256] [Finite 8, Finite 16] = Inr (Finite (1 / 2))"
  "sample_fit [16, 64, 256] [Finite 4, Finite 8, Finite 16] = Inr (Finite (1 / 2))"
  "sample_fit [] [] = Inl TypeError"
  by (simp_all add: sample_fit_def)

lemma sample_fit_loop:
  "fit_loop sample_fit sample_lag sample_mfdfa (Some 1, Some 3) [0, Suc 0, Suc (Suc 0)]
     = Inr [Finite (1 / 2), Finite (1 / 2), Finite (1 / 2)]"
  "fit_loop sample_fit sample_lag sample_mfdfa (None, Some 3) [0, Suc 0, Suc (Suc 0)]
     = Inr [Finite (1 / 2), Finite (1 / 2), Finite (1 / 2)]"
  "fit_loop sample_fit sample_lag sample_mfdfa (Some 64, Some 1024) [0, Suc 0, Suc (Suc 0)]
     = Inl (FitError TypeError)"
  by (simp_all add: sample_columns sample_slice_lag sample_slice_column sample_fit_windows)

lemma sample_slopes:
  "slopes sample_fit sample_lag sample_mfdfa sample_q (Some 1, Some 3) 0
     = Inr [Finite (1 / 2), Finite (1 / 2), Finite (1 / 2)]"
  "slopes sample_fit sample_lag sample_mfdfa sample_q (None, Some 3) 0
     = Inr [Finite (1 / 2), Finite (1 / 2), Finite (1 / 2)]"
  "slopes sample_fit sample_lag sample_mfdfa sample_q (Some 64, Some 1024) 0
     = Inl (FitError TypeError)"
  by (simp_all add: slopes_given sample_clean sample_columns(1) sample_fit_loop
      del: fit_loop.simps)

lemma sample_scaling:
  "scaling_exponents sample_fit sample_lag sample_mfdfa sample_q (None, None) 0
     = Inr ([Finite (- 2), Finite 2, Finite 4], [Finite (- 2), Finite 0, Finite 1])"
  by (simp add: scaling_exponents_eq sample_clean sample_default sample_slopes
      arr_mul_def fsub_def)

lemma sample_spectrum:
  "singularity_spectrum sample_fit sample_lag sample_mfdfa sample_q (None, None) 0
     = Inr ([Finite (1 / 2), Finite (1 / 2), Finite (1 / 2)], [Finite 1, Finite 1, Finite 1])"
proof -
  have gt: "gradient [Finite (- 2), Finite 0, Finite 1] = Inr [Finite 2, Finite (3 / 2), Finite 1]"
    by (simp add: gradient_def fsub_def)
  have gq: "gradient [Finite (- 2), Finite 2, Finite 4] = Inr [Finite 4, Finite 3, Finite 2]"
    by (simp add: gradient_def fsub_def)
  show ?thesis
    by (simp add: singularity_spectrum_eq [OF sample_clean] sample_scaling gt gq
        arr_div_def falpha_def arr_sub_def arr_mul_def fsub_def)
qed

section \<open>The scaling exponents\<close>

text \<open>
  C1. When the cleaner returns \<open>qc\<close> for \<open>q\<close> and the slope estimator returns \<open>h\<close> for the
  same \<open>lag\<close>, matrix, \<open>q\<close> and \<open>interpolate\<close> over the fit range of the call (\<open>lims\<close>, or
  \<open>[1, lag.size // 2]\<close> when both limits are \<open>None\<close>), \<open>scaling_exponents\<close> returns the
  pair \<open>(qc, tau)\<close> with \<open>tau[j] = qc[j] * h[j] - 1\<close> at every index; \<open>tau\<close>, \<open>h\<close> and
  \<open>qc\<close> have one length, and \<open>h\<close> is what \<open>hurst_exponents\<close> returns beside \<open>qc\<close> for the
  same arguments.
\<close>

theorem scaling_exponents_tau:
  assumes "clean_q q = Inr qc"
    and "slopes fit lag mfdfa q (default_lim lag lims) interpolate = Inr h"
  shows "\<exists>tau. scaling_exponents fit lag mfdfa q lims interpolate = Inr (qc, tau)
           \<and> hurst_exponents fit lag mfdfa q lims interpolate = Inr (qc, h)
           \<and> length tau = length qc \<and> length h = length qc
           \<and> (\<forall>j<length qc. tau ! j = fsub (fmul (qc ! j) (h ! j)) (Finite 1))"
proof -
  define tau where "tau = map (\<lambda>x. fsub x (Finite 1)) (arr_mul qc h)"
  have lh: "length h = length qc"
    using slopes_lengths [OF assms] by simp
  have run: "scaling_exponents fit lag mfdfa q lims interpolate = Inr (qc, tau)"
    by (simp add: scaling_exponents_eq assms tau_def)
  have acc: "hurst_exponents fit lag mfdfa q lims interpolate = Inr (qc, h)"
    by (simp add: hurst_exponents_eq assms)
  have lt: "length tau = length qc"
    by (simp add: tau_def arr_mul_def lh)
  have nth: "tau ! j = fsub (fmul (qc ! j) (h ! j)) (Finite 1)" if "j < length qc" for j
    using that by (simp add: tau_def arr_mul_def lh)
  from run acc lt lh nth show ?thesis by blast
qed

theorem scaling_exponents_tau_witness:
  "clean_q sample_q = Inr [Finite (- 2), Finite 2, Finite 4]
   \<and> slopes sample_fit sample_lag sample_mfdfa sample_q (default_lim sample_lag (None, None)) 0
       = Inr [Finite (1 / 2), Finite (1 / 2), Finite (1 / 2)]
   \<and> (\<exists>tau. scaling_exponents sample_fit sample_lag sample_mfdfa sample_q (None, None) 0
                = Inr ([Finite (- 2), Finite 2, Finite 4], tau)
          \<and> length tau = 3
          \<and> tau ! 0 = Finite (- 2) \<and> tau ! 1 = Finite 0 \<and> tau ! 2 = Finite 1)"
proof -
  have s: "slopes sample_fit sample_lag sample_mfdfa sample_q (default_lim sample_lag (None, None)) 0
             = Inr [Finite (1 / 2), Finite (1 / 2), Finite (1 / 2)]"
    unfolding sample_default by (rule sample_slopes(1))
  from scaling_exponents_tau [OF sample_clean s] obtain tau where
    run: "scaling_exponents sample_fit sample_lag sample_mfdfa sample_q (None, None) 0
            = Inr ([Finite (- 2), Finite 2, Finite 4], tau)"
    and len: "length tau = length [Finite (- 2), Finite 2, Finite 4]"
    and nth: "\<forall>j<length [Finite (- 2), Finite 2, Finite 4].
                tau ! j = fsub (fmul ([Finite (- 2), Finite 2, Finite 4] ! j)
                                     ([Finite (1 / 2), Finite (1 / 2), Finite (1 / 2)] ! j))
                               (Finite 1)"
    by blast
  from nth [rule_format, of 0] have t0: "tau ! 0 = Finite (- 2)"
    by (simp add: fsub_def)
  from nth [rule_format, of 1] have t1: "tau ! 1 = Finite 0"
    by (simp add: fsub_def)
  from nth [rule_format, of 2] have t2: "tau ! 2 = Finite 1"
    by (simp add: fsub_def)
  from len have l: "length tau = 3" by simp
  from sample_clean s run l t0 t1 t2 show ?thesis by blast
qed

section \<open>The singularity spectrum\<close>

text \<open>
  C2. When \<open>scaling_exponents\<close> returns \<open>(qc, tau)\<close> and the cleaned \<open>qc\<close> has two
  entries or more, \<open>singularity_spectrum\<close> returns, and its \<open>alpha\<close> is the quotient of
  the differences of \<open>tau\<close> and of \<open>qc\<close>: between the two neighbours at an interior
  index, and one-sided at the first and at the last index.
\<close>

theorem singularity_spectrum_alpha:
  assumes "scaling_exponents fit lag mfdfa q lims interpolate = Inr (qc, tau)"
    and "2 \<le> length qc"
  shows "\<exists>alpha f. singularity_spectrum fit lag mfdfa q lims interpolate = Inr (alpha, f)
           \<and> clean_q q = Inr qc
           \<and> length alpha = length qc
           \<and> alpha ! 0 = fdiv (fsub (tau ! 1) (tau ! 0)) (fsub (qc ! 1) (qc ! 0))
           \<and> alpha ! (length qc - 1)
               = fdiv (fsub (tau ! (length qc - 1)) (tau ! (length qc - 2)))
                      (fsub (qc ! (length qc - 1)) (qc ! (length qc - 2)))
           \<and> (\<forall>i. 0 < i \<and> i + 1 < length qc \<longrightarrow>
                 alpha ! i = fdiv (fsub (tau ! (i + 1)) (tau ! (i - 1)))
                                  (fsub (qc ! (i + 1)) (qc ! (i - 1))))"
proof -
  let ?n = "length qc"
  have c: "clean_q q = Inr qc" and lt: "length tau = ?n"
    using scaling_exponents_Inr [OF assms(1)] by simp_all
  from gradient_Inr [of tau] assms(2) lt obtain gt where
    gt: "gradient tau = Inr gt" "length gt = ?n"
    "gt ! 0 = fdiv (fsub (tau ! 1) (tau ! 0)) (Finite 1)"
    "gt ! (?n - 1) = fdiv (fsub (tau ! (?n - 1)) (tau ! (?n - 2))) (Finite 1)"
    "\<And>i. 0 < i \<Longrightarrow> i + 1 < ?n \<Longrightarrow>
       gt ! i = fdiv (fsub (tau ! (i + 1)) (tau ! (i - 1))) (Finite 2)"
    by auto
  from gradient_Inr [of qc] assms(2) obtain gq where
    gq: "gradient qc = Inr gq" "length gq = ?n"
    "gq ! 0 = fdiv (fsub (qc ! 1) (qc ! 0)) (Finite 1)"
    "gq ! (?n - 1) = fdiv (fsub (qc ! (?n - 1)) (qc ! (?n - 2))) (Finite 1)"
    "\<And>i. 0 < i \<Longrightarrow> i + 1 < ?n \<Longrightarrow>
       gq ! i = fdiv (fsub (qc ! (i + 1)) (qc ! (i - 1))) (Finite 2)"
    by auto
  define alpha where "alpha = arr_div gt gq"
  have run: "singularity_spectrum fit lag mfdfa q lims interpolate
               = Inr (alpha, falpha tau alpha qc)"
    by (simp add: singularity_spectrum_eq [OF c] assms(1) gt(1) gq(1) alpha_def)
  have len: "length alpha = ?n"
    by (simp add: alpha_def arr_div_def gt(2) gq(2))
  have nth: "alpha ! i = fdiv (gt ! i) (gq ! i)" if "i < ?n" for i
    using that by (simp add: alpha_def arr_div_def gt(2) gq(2))
  have pos: "0 < ?n" and pred: "?n - 1 < ?n"
    using assms(2) by arith+
  have first: "alpha ! 0 = fdiv (fsub (tau ! 1) (tau ! 0)) (fsub (qc ! 1) (qc ! 0))"
    unfolding nth [OF pos] gt(3) gq(3) fdiv_one ..
  have last: "alpha ! (?n - 1)
               = fdiv (fsub (tau ! (?n - 1)) (tau ! (?n - 2)))
                      (fsub (qc ! (?n - 1)) (qc ! (?n - 2)))"
    unfolding nth [OF pred] gt(4) gq(4) fdiv_one ..
  have inner: "alpha ! i = fdiv (fsub (tau ! (i + 1)) (tau ! (i - 1)))
                                (fsub (qc ! (i + 1)) (qc ! (i - 1)))"
    if "0 < i" and "i + 1 < ?n" for i
  proof -
    from that have "i < ?n" by arith
    show ?thesis
      unfolding nth [OF \<open>i < ?n\<close>] gt(5) [OF that] gq(5) [OF that] fdiv_half ..
  qed
  from run c len first last inner show ?thesis
    by blast
qed

theorem singularity_spectrum_alpha_witness:
  "scaling_exponents sample_fit sample_lag sample_mfdfa sample_q (None, None) 0
     = Inr ([Finite (- 2), Finite 2, Finite 4], [Finite (- 2), Finite 0, Finite 1])
   \<and> 2 \<le> length [Finite (- 2), Finite 2, Finite 4]
   \<and> (\<exists>alpha f. singularity_spectrum sample_fit sample_lag sample_mfdfa sample_q (None, None) 0
                   = Inr (alpha, f)
          \<and> length alpha = 3
          \<and> alpha ! 0 = Finite (1 / 2) \<and> alpha ! 1 = Finite (1 / 2) \<and> alpha ! 2 = Finite (1 / 2))"
proof -
  have two: "2 \<le> length [Finite (- 2), Finite 2, Finite 4]"
    by simp
  from singularity_spectrum_alpha [OF sample_scaling two] obtain alpha f where
    run: "singularity_spectrum sample_fit sample_lag sample_mfdfa sample_q (None, None) 0
            = Inr (alpha, f)"
    and len: "length alpha = length [Finite (- 2), Finite 2, Finite 4]"
    and first: "alpha ! 0
        = fdiv (fsub ([Finite (- 2), Finite 0, Finite 1] ! 1) ([Finite (- 2), Finite 0, Finite 1] ! 0))
               (fsub ([Finite (- 2), Finite 2, Finite 4] ! 1) ([Finite (- 2), Finite 2, Finite 4] ! 0))"
    and last: "alpha ! (length [Finite (- 2), Finite 2, Finite 4] - 1)
        = fdiv (fsub ([Finite (- 2), Finite 0, Finite 1] ! (length [Finite (- 2), Finite 2, Finite 4] - 1))
                     ([Finite (- 2), Finite 0, Finite 1] ! (length [Finite (- 2), Finite 2, Finite 4] - 2)))
               (fsub ([Finite (- 2), Finite 2, Finite 4] ! (length [Finite (- 2), Finite 2, Finite 4] - 1))
                     ([Finite (- 2), Finite 2, Finite 4] ! (length [Finite (- 2), Finite 2, Finite 4] - 2)))"
    and inner: "\<forall>i. 0 < i \<and> i + 1 < length [Finite (- 2), Finite 2, Finite 4] \<longrightarrow>
        alpha ! i
        = fdiv (fsub ([Finite (- 2), Finite 0, Finite 1] ! (i + 1)) ([Finite (- 2), Finite 0, Finite 1] ! (i - 1)))
               (fsub ([Finite (- 2), Finite 2, Finite 4] ! (i + 1)) ([Finite (- 2), Finite 2, Finite 4] ! (i - 1)))"
    by blast
  from first have a0: "alpha ! 0 = Finite (1 / 2)"
    by (simp add: fsub_def)
  from inner [rule_format, of 1] have a1: "alpha ! 1 = Finite (1 / 2)"
    by (simp add: fsub_def)
  from last have a2: "alpha ! 2 = Finite (1 / 2)"
    by (simp add: fsub_def numeral_2_eq_2)
  from len have l: "length alpha = 3" by simp
  from sample_scaling two run l a0 a1 a2 show ?thesis by blast
qed

text \<open>
  C3. For \<open>tau\<close>, \<open>alpha\<close> and \<open>q\<close> of one length, \<open>_falpha\<close> returns an array of that
  length with \<open>f[i] = q[i] * alpha[i] - tau[i]\<close> at every index; and when
  \<open>singularity_spectrum\<close> returns \<open>(alpha, f)\<close>, then \<open>f\<close> is \<open>_falpha\<close> of the scaling
  exponents, \<open>alpha\<close> and the cleaned \<open>q\<close>, and \<open>alpha\<close> and \<open>f\<close> have the length of the
  cleaned \<open>q\<close>.
\<close>

theorem falpha_formula:
  "(length tau = length q \<and> length alpha = length q \<longrightarrow>
      length (falpha tau alpha q) = length q
      \<and> (\<forall>i<length q. falpha tau alpha q ! i = fsub (fmul (q ! i) (alpha ! i)) (tau ! i)))
   \<and> (singularity_spectrum fit lag mfdfa q0 lims interpolate = Inr (alpha0, f0) \<longrightarrow>
      (\<exists>qc tau0. clean_q q0 = Inr qc
         \<and> scaling_exponents fit lag mfdfa q0 lims interpolate = Inr (qc, tau0)
         \<and> f0 = falpha tau0 alpha0 qc
         \<and> length alpha0 = length qc \<and> length f0 = length qc))"
proof (intro conjI impI)
  assume "length tau = length q \<and> length alpha = length q"
  then show "length (falpha tau alpha q) = length q"
    by (simp add: falpha_length)
next
  assume "length tau = length q \<and> length alpha = length q"
  then show "\<forall>i<length q. falpha tau alpha q ! i = fsub (fmul (q ! i) (alpha ! i)) (tau ! i)"
    by (simp add: falpha_nth)
next
  assume "singularity_spectrum fit lag mfdfa q0 lims interpolate = Inr (alpha0, f0)"
  then show "\<exists>qc tau0. clean_q q0 = Inr qc
         \<and> scaling_exponents fit lag mfdfa q0 lims interpolate = Inr (qc, tau0)
         \<and> f0 = falpha tau0 alpha0 qc
         \<and> length alpha0 = length qc \<and> length f0 = length qc"
    by (rule singularity_spectrum_Inr)
qed

theorem falpha_formula_witness:
  "length [Finite (- 2), Finite 0, Finite 1] = length [Finite (- 2), Finite 2, Finite 4]
   \<and> length [Finite (1 / 2), Finite (1 / 2), Finite (1 / 2)]
       = length [Finite (- 2), Finite 2, Finite 4]
   \<and> falpha [Finite (- 2), Finite 0, Finite 1] [Finite (1 / 2), Finite (1 / 2), Finite (1 / 2)]
        [Finite (- 2), Finite 2, Finite 4] ! 2 = Finite 1
   \<and> singularity_spectrum sample_fit sample_lag sample_mfdfa sample_q (None, None) 0
       = Inr ([Finite (1 / 2), Finite (1 / 2), Finite (1 / 2)], [Finite 1, Finite 1, Finite 1])
   \<and> (\<exists>qc tau0. clean_q sample_q = Inr qc
         \<and> scaling_exponents sample_fit sample_lag sample_mfdfa sample_q (None, None) 0
             = Inr (qc, tau0)
         \<and> [Finite 1, Finite 1, Finite 1]
             = falpha tau0 [Finite (1 / 2), Finite (1 / 2), Finite (1 / 2)] qc
         \<and> length [Finite (1 / 2), Finite (1 / 2), Finite (1 / 2)] = length qc
         \<and> length [Finite 1, Finite 1, Finite 1 :: npfloat] = length qc)"
proof -
  note inst = falpha_formula
    [of "[Finite (- 2), Finite 0, Finite 1]" "[Finite (- 2), Finite 2, Finite 4]"
        "[Finite (1 / 2), Finite (1 / 2), Finite (1 / 2)]"
        sample_fit sample_lag sample_mfdfa sample_q "(None, None)" 0
        "[Finite (1 / 2), Finite (1 / 2), Finite (1 / 2)]" "[Finite 1, Finite 1, Finite 1]"]
  have lens: "length [Finite (- 2), Finite 0, Finite 1] = length [Finite (- 2), Finite 2, Finite 4]
      \<and> length [Finite (1 / 2), Finite (1 / 2), Finite (1 / 2)]
          = length [Finite (- 2), Finite 2, Finite 4]"
    by simp
  from inst [THEN conjunct1, rule_format, OF lens, THEN conjunct2, rule_format, of 2]
  have nth: "falpha [Finite (- 2), Finite 0, Finite 1]
               [Finite (1 / 2), Finite (1 / 2), Finite (1 / 2)]
               [Finite (- 2), Finite 2, Finite 4] ! 2 = Finite 1"
    by (simp add: fsub_def)
  note rest = inst [THEN conjunct2, rule_format, OF sample_spectrum]
  from lens nth sample_spectrum rest show ?thesis
    by blast
qed

section \<open>Non-finite moment orders\<close>

lemma slopes_not_domain:
  assumes "list_all isfinite q" and "\<not> (fst lims = None \<and> snd lims = None)"
  shows "slopes fit lag m q lims ip \<noteq> Inl DomainError"
proof
  assume a: "slopes fit lag m q lims ip = Inl DomainError"
  from assms(1) obtain qc where c: "clean_q q = Inr qc"
    by (simp add: clean_q_Inr)
  from a have "fit_loop fit lag m lims [0..<length qc] = Inl DomainError"
    unfolding slopes_given [OF assms(2)] c by (simp split: if_splits)
  from fit_loop_Inl [OF this] show False by simp
qed

text \<open>
  C7. On a \<open>q\<close> with an entry that is NaN or infinite the cleaner fails with the domain
  error, and so does each of the three public operations, whatever the line fit would
  do: no fit is reached. On a \<open>q\<close> of finite entries the cleaner returns, and no public
  operation fails with the domain error.
\<close>

theorem nonfinite_q_domain_error:
  "(\<not> list_all isfinite q \<longrightarrow>
      clean_q q = Inl DomainError
      \<and> hurst_exponents fit lag mfdfa q lims interpolate = Inl DomainError
      \<and> scaling_exponents fit lag mfdfa q lims interpolate = Inl DomainError
      \<and> singularity_spectrum fit lag mfdfa q lims interpolate = Inl DomainError)
   \<and> (list_all isfinite q \<longrightarrow>
      (\<exists>qc. clean_q q = Inr qc)
      \<and> hurst_exponents fit lag mfdfa q lims interpolate \<noteq> Inl DomainError
      \<and> scaling_exponents fit lag mfdfa q lims interpolate \<noteq> Inl DomainError
      \<and> singularity_spectrum fit lag mfdfa q lims interpolate \<noteq> Inl DomainError)"
proof (intro conjI impI)
  assume n: "\<not> list_all isfinite q"
  then show c: "clean_q q = Inl DomainError"
    by (simp add: clean_q_Inl)
  show "hurst_exponents fit lag mfdfa q lims interpolate = Inl DomainError"
    by (simp add: hurst_exponents_def c)
  show "scaling_exponents fit lag mfdfa q lims interpolate = Inl DomainError"
    by (simp add: scaling_exponents_def c)
  show "singularity_spectrum fit lag mfdfa q lims interpolate = Inl DomainError"
    by (simp add: singularity_spectrum_def c)
next
  assume f: "list_all isfinite q"
  then obtain qc where c: "clean_q q = Inr qc"
    by (simp add: clean_q_Inr)
  then show "\<exists>qc. clean_q q = Inr qc" ..
  note s = slopes_not_domain [OF f default_lim_set, of fit lag mfdfa lag lims interpolate]
  show h: "hurst_exponents fit lag mfdfa q lims interpolate \<noteq> Inl DomainError"
    using s by (auto simp: hurst_exponents_eq c split: sum.splits)
  show t: "scaling_exponents fit lag mfdfa q lims interpolate \<noteq> Inl DomainError"
    using s by (auto simp: scaling_exponents_eq c split: sum.splits)
  show "singularity_spectrum fit lag mfdfa q lims interpolate \<noteq> Inl DomainError"
    using t
    by (auto simp: singularity_spectrum_eq [OF c] gradient_Inl split: sum.splits prod.splits)
qed

theorem nonfinite_q_domain_error_witness:
  "\<not> list_all isfinite [Finite 2, NaN, PosInf]
   \<and> clean_q [Finite 2, NaN, PosInf] = Inl DomainError
   \<and> hurst_exponents sample_fit sample_lag sample_mfdfa [Finite 2, NaN, PosInf] (None, None) 0
       = Inl DomainError
   \<and> scaling_exponents sample_fit sample_lag sample_mfdfa [Finite 2, NaN, PosInf] (None, None) 0
       = Inl DomainError
   \<and> singularity_spectrum sample_fit sample_lag sample_mfdfa [Finite 2, NaN, PosInf] (None, None) 0
       = Inl DomainError
   \<and> list_all isfinite sample_q
   \<and> singularity_spectrum sample_fit sample_lag sample_mfdfa sample_q (None, None) 0
       \<noteq> Inl DomainError"
proof -
  have bad: "\<not> list_all isfinite [Finite 2, NaN, PosInf]"
    by simp
  have good: "list_all isfinite sample_q"
    by (simp add: sample_q_def)
  note raised = nonfinite_q_domain_error
    [of "[Finite 2, NaN, PosInf]" sample_fit sample_lag sample_mfdfa "(None, None)" 0,
     THEN conjunct1, rule_format, OF bad]
  note passed = nonfinite_q_domain_error
    [of sample_q sample_fit sample_lag sample_mfdfa "(None, None)" 0,
     THEN conjunct2, rule_format, OF good]
  from bad good raised passed show ?thesis
    by blast
qed

section \<open>The interpolate parameter\<close>

text \<open>
  C8. The \<open>interpolate\<close> parameter has no effect: two calls of \<open>_slopes\<close>,
  \<open>hurst_exponents\<close>, \<open>scaling_exponents\<close> or \<open>singularity_spectrum\<close> that differ only
  in its value give the same result, whether a value or an exception.
\<close>

theorem interpolate_ignored:
  "slopes fit lag mfdfa q lims i1 = slopes fit lag mfdfa q lims i2
   \<and> hurst_exponents fit lag mfdfa q lims i1 = hurst_exponents fit lag mfdfa q lims i2
   \<and> scaling_exponents fit lag mfdfa q lims i1 = scaling_exponents fit lag mfdfa q lims i2
   \<and> singularity_spectrum fit lag mfdfa q lims i1
       = singularity_spectrum fit lag mfdfa q lims i2"
proof -
  have s: "slopes fit lag m q' l i1 = slopes fit lag m q' l i2" for m q' l
    by (simp add: slopes_def)
  have h: "hurst_exponents fit lag mfdfa q lims i1 = hurst_exponents fit lag mfdfa q lims i2"
    by (simp add: hurst_exponents_def s [of mfdfa] cong: sum.case_cong)
  have t: "scaling_exponents fit lag mfdfa q' l i1 = scaling_exponents fit lag mfdfa q' l i2"
    for q' l
    by (simp add: scaling_exponents_def s [of mfdfa] cong: sum.case_cong)
  have a: "singularity_spectrum fit lag mfdfa q lims i1
             = singularity_spectrum fit lag mfdfa q lims i2"
    by (simp add: singularity_spectrum_def t cong: sum.case_cong)
  from s h t a show ?thesis by blast
qed

theorem interpolate_ignored_witness:
  "slopes sample_fit sample_lag sample_mfdfa sample_q (Some 1, Some 3) 1
     = Inr [Finite (1 / 2), Finite (1 / 2), Finite (1 / 2)]
   \<and> scaling_exponents sample_fit sample_lag sample_mfdfa sample_q (None, None) 7
       = Inr ([Finite (- 2), Finite 2, Finite 4], [Finite (- 2), Finite 0, Finite 1])
   \<and> singularity_spectrum sample_fit sample_lag sample_mfdfa sample_q (None, None) 1
       = Inr ([Finite (1 / 2), Finite (1 / 2), Finite (1 / 2)], [Finite 1, Finite 1, Finite 1])"
  using interpolate_ignored [of sample_fit sample_lag sample_mfdfa sample_q "(Some 1, Some 3)" 1 0]
    interpolate_ignored [of sample_fit sample_lag sample_mfdfa sample_q "(None, None)" 7 0]
    interpolate_ignored [of sample_fit sample_lag sample_mfdfa sample_q "(None, None)" 1 0]
  by (simp add: sample_slopes(1) sample_scaling sample_spectrum)

section \<open>One limit given\<close>

lemma singularity_spectrum_chain:
  "singularity_spectrum fit lag m q lims ip =
     (case clean_q q of
        Inl e \<Rightarrow> Inl e
      | Inr qc \<Rightarrow>
          (case scaling_exponents fit lag m q lims ip of
             Inl e \<Rightarrow> Inl e
           | Inr (q2, tau) \<Rightarrow>
               (case gradient tau of
                  Inl e \<Rightarrow> Inl e
                | Inr gtau \<Rightarrow>
                    (case gradient qc of
                       Inl e \<Rightarrow> Inl e
                     | Inr gq \<Rightarrow> Inr (arr_div gtau gq, falpha tau (arr_div gtau gq) qc)))))"
proof (cases "clean_q q")
  case (Inl e)
  then show ?thesis
    by (simp add: singularity_spectrum_def)
next
  case (Inr qc)
  then show ?thesis
    by (simp add: singularity_spectrum_eq [OF Inr])
qed

lemma slopes_given_nth:
  assumes "\<not> (fst lims = None \<and> snd lims = None)"
    and "slopes fit lag m q lims ip = Inr h" and "j < length h"
  shows "fit (py_slice (fst lims) (snd lims) lag) (py_slice (fst lims) (snd lims) (m ! j))
           = Inr (h ! j)"
proof -
  from assms(2) obtain qc where c: "clean_q q = Inr qc"
    and l: "fit_loop fit lag m lims [0..<length qc] = Inr h"
    unfolding slopes_given [OF assms(1)] by (auto split: sum.splits if_splits)
  from fit_loop_length [OF l] assms(3) have j: "j < length [0..<length qc]"
    by simp
  from fit_loop_nth [OF l j] j show ?thesis
    by simp
qed

lemma py_slice_from_start:
  "py_slice None hi xs = take (slice_bound (length xs) hi (length xs)) xs"
  by (simp add: py_slice_def slice_bound_def Let_def)

text \<open>
  C10. When exactly one of the two limits is \<open>None\<close>, no default is put in its place:
  the fit range of the public operations is the pair as given, \<open>_slopes\<close> keeps it, and
  every slope is the fit of \<open>lag[lo:hi]\<close> against the same slice of its column. With
  \<open>lo = None\<close> the slice of \<open>lag\<close> is a prefix of \<open>lag\<close>: the fit starts at the first
  window size.
\<close>

theorem one_limit_used_directly:
  assumes "(lo = None) \<noteq> (hi = None)"
  shows "default_lim lag (lo, hi) = (lo, hi)
     \<and> slopes fit lag mfdfa q (lo, hi) interpolate
         = (case clean_q q of
              Inl e \<Rightarrow> Inl e
            | Inr qc \<Rightarrow>
                if length mfdfa \<noteq> length qc then Inl DimensionMismatch
                else fit_loop fit lag mfdfa (lo, hi) [0..<length qc])
     \<and> (\<forall>h j. slopes fit lag mfdfa q (lo, hi) interpolate = Inr h \<and> j < length h \<longrightarrow>
           fit (py_slice lo hi lag) (py_slice lo hi (mfdfa ! j)) = Inr (h ! j))
     \<and> hurst_exponents fit lag mfdfa q (lo, hi) interpolate
         = (case clean_q q of
              Inl e \<Rightarrow> Inl e
            | Inr qc \<Rightarrow>
                (case slopes fit lag mfdfa q (lo, hi) interpolate of
                   Inl e \<Rightarrow> Inl e
                 | Inr h \<Rightarrow> Inr (qc, h)))
     \<and> scaling_exponents fit lag mfdfa q (lo, hi) interpolate
         = (case clean_q q of
              Inl e \<Rightarrow> Inl e
            | Inr qc \<Rightarrow>
                (case slopes fit lag mfdfa q (lo, hi) interpolate of
                   Inl e \<Rightarrow> Inl e
                 | Inr h \<Rightarrow> Inr (qc, map (\<lambda>x. fsub x (Finite 1)) (arr_mul qc h))))
     \<and> singularity_spectrum fit lag mfdfa q (lo, hi) interpolate
         = (case clean_q q of
              Inl e \<Rightarrow> Inl e
            | Inr qc \<Rightarrow>
                (case scaling_exponents fit lag mfdfa q (lo, hi) interpolate of
                   Inl e \<Rightarrow> Inl e
                 | Inr (q2, tau) \<Rightarrow>
                     (case gradient tau of
                        Inl e \<Rightarrow> Inl e
                      | Inr gtau \<Rightarrow>
                          (case gradient qc of
                             Inl e \<Rightarrow> Inl e
                           | Inr gq \<Rightarrow>
                               Inr (arr_div gtau gq, falpha tau (arr_div gtau gq) qc)))))
     \<and> (lo = None \<longrightarrow>
           py_slice lo hi lag = take (slice_bound (length lag) hi (length lag)) lag)"
proof -
  from assms have given: "\<not> (fst (lo, hi) = None \<and> snd (lo, hi) = None)"
    by auto
  have d: "default_lim lag (lo, hi) = (lo, hi)"
    by (rule default_lim_given [OF given])
  have s: "slopes fit lag mfdfa q (lo, hi) interpolate
         = (case clean_q q of
              Inl e \<Rightarrow> Inl e
            | Inr qc \<Rightarrow>
                if length mfdfa \<noteq> length qc then Inl DimensionMismatch
                else fit_loop fit lag mfdfa (lo, hi) [0..<length qc])"
    by (rule slopes_given [OF given])
  have n: "\<forall>h j. slopes fit lag mfdfa q (lo, hi) interpolate = Inr h \<and> j < length h \<longrightarrow>
           fit (py_slice lo hi lag) (py_slice lo hi (mfdfa ! j)) = Inr (h ! j)"
    using slopes_given_nth [OF given] by fastforce
  note h = hurst_exponents_eq [of fit lag mfdfa q "(lo, hi)" interpolate, unfolded d]
  note t = scaling_exponents_eq [of fit lag mfdfa q "(lo, hi)" interpolate, unfolded d]
  note a = singularity_spectrum_chain [of fit lag mfdfa q "(lo, hi)" interpolate]
  have p: "lo = None \<longrightarrow>
           py_slice lo hi lag = take (slice_bound (length lag) hi (length lag)) lag"
    by (simp add: py_slice_from_start)
  from d s n h t a p show ?thesis
    by (intro conjI)
qed

theorem one_limit_used_directly_witness:
  "((None :: int option) = None) \<noteq> (Some (3 :: int) = None)
   \<and> default_lim sample_lag (None, Some 3) = (None, Some 3)
   \<and> slopes sample_fit sample_lag sample_mfdfa sample_q (None, Some 3) 0
       = Inr [Finite (1 / 2), Finite (1 / 2), Finite (1 / 2)]
   \<and> sample_fit [16, 64, 256] [Finite 4, Finite 8, Finite 16] = Inr (Finite (1 / 2))
   \<and> py_slice None (Some 3) sample_lag = [16, 64, 256]
   \<and> hurst_exponents sample_fit sample_lag sample_mfdfa sample_q (None, Some 3) 0
       = Inr ([Finite (- 2), Finite 2, Finite 4], [Finite (1 / 2), Finite (1 / 2), Finite (1 / 2)])"
proof -
  have one: "((None :: int option) = None) \<noteq> (Some (3 :: int) = None)"
    by simp
  note inst = one_limit_used_directly
    [OF one, of sample_lag sample_fit sample_mfdfa sample_q 0]
  from inst have d: "default_lim sample_lag (None, Some 3) = (None, Some 3)"
    by blast
  from inst have
    "\<forall>h j. slopes sample_fit sample_lag sample_mfdfa sample_q (None, Some 3) 0 = Inr h
         \<and> j < length h \<longrightarrow>
       sample_fit (py_slice None (Some 3) sample_lag) (py_slice None (Some 3) (sample_mfdfa ! j))
         = Inr (h ! j)"
    by blast
  from this [rule_format, of "[Finite (1 / 2), Finite (1 / 2), Finite (1 / 2)]" 0]
  have w: "sample_fit [16, 64, 256] [Finite 4, Finite 8, Finite 16] = Inr (Finite (1 / 2))"
    by (simp add: sample_slopes(2) sample_slice_lag(2) sample_columns(2) sample_slice_column(2))
  from inst have "hurst_exponents sample_fit sample_lag sample_mfdfa sample_q (None, Some 3) 0
      = (case clean_q sample_q of
           Inl e \<Rightarrow> Inl e
         | Inr qc \<Rightarrow>
             (case slopes sample_fit sample_lag sample_mfdfa sample_q (None, Some 3) 0 of
                Inl e \<Rightarrow> Inl e
              | Inr h \<Rightarrow> Inr (qc, h)))"
    by blast
  then have h: "hurst_exponents sample_fit sample_lag sample_mfdfa sample_q (None, Some 3) 0
      = Inr ([Finite (- 2), Finite 2, Finite 4], [Finite (1 / 2), Finite (1 / 2), Finite (1 / 2)])"
    by (simp add: sample_clean sample_slopes(2))
  from one d sample_slopes(2) w sample_slice_lag(2) h show ?thesis
    by (intro conjI)
qed

section \<open>The default fit range\<close>

text \<open>
  With both limits \<open>None\<close> each public operation is the same operation on the index
  range \<open>[1, lag.size // 2]\<close>.
\<close>

lemma public_default_range:
  "hurst_exponents fit lag m q (None, None) ip
     = hurst_exponents fit lag m q (Some 1, Some (int (length lag div 2))) ip"
  "scaling_exponents fit lag m q (None, None) ip
     = scaling_exponents fit lag m q (Some 1, Some (int (length lag div 2))) ip"
  "singularity_spectrum fit lag m q (None, None) ip
     = singularity_spectrum fit lag m q (Some 1, Some (int (length lag div 2))) ip"
  by (simp_all add: hurst_exponents_def scaling_exponents_def singularity_spectrum_def
      default_lim_def)

text \<open>
  C5. \<open>_slopes\<close> itself does not default to that index range. On the example inputs
  \<open>lag[1] = 64\<close> and \<open>lag[lag.size // 2] = 1024\<close>, so with both limits \<open>None\<close> it fits
  \<open>lag[64:1024]\<close>, which is empty, and fails in the line fit, while on the range
  \<open>[1, lag.size // 2] = [1, 3]\<close> it fits \<open>lag[1:3] = [64, 256]\<close> and returns the slopes.
\<close>

theorem slopes_default_range_failing_input:
  "slopes fit sample_lag sample_mfdfa sample_q (None, None) ip
     = slopes fit sample_lag sample_mfdfa sample_q (Some 64, Some 1024) ip
   \<and> py_slice (Some 64) (Some 1024) sample_lag = []
   \<and> py_slice (Some 1) (Some (int (length sample_lag div 2))) sample_lag = [64, 256]
   \<and> slopes sample_fit sample_lag sample_mfdfa sample_q (None, None) 0
       = Inl (FitError TypeError)
   \<and> slopes sample_fit sample_lag sample_mfdfa sample_q
        (Some 1, Some (int (length sample_lag div 2))) 0
       = Inr [Finite (1 / 2), Finite (1 / 2), Finite (1 / 2)]"
proof -
  have len: "2 \<le> length sample_lag" and half: "int (length sample_lag div 2) = 3"
    and lo: "sample_lag ! 1 = 64" and hi: "sample_lag ! (length sample_lag div 2) = 1024"
    by (simp_all add: sample_lag_def)
  have a: "slopes f sample_lag sample_mfdfa sample_q (None, None) i
             = slopes f sample_lag sample_mfdfa sample_q (Some 64, Some 1024) i" for f i
    using slopes_unset [OF len, of f sample_mfdfa sample_q i] by (simp only: lo hi)
  show ?thesis
    unfolding half a
    by (intro conjI refl sample_slice_lag(3) sample_slice_lag(1) sample_slopes(3) sample_slopes(1))
qed

section \<open>The dimension check\<close>

text \<open>
  Once \<open>q\<close> is cleaned, a matrix whose number of columns differs from the length of the
  cleaned \<open>q\<close> is refused by the three public operations, and by \<open>_slopes\<close> when a limit
  is given or \<open>lag\<close> has two entries or more; a matrix with that number of columns is
  not refused.
\<close>

lemma dimension_mismatch_detected:
  assumes "clean_q q = Inr qc" and "length m \<noteq> length qc"
  shows "hurst_exponents fit lag m q lims ip = Inl DimensionMismatch"
    and "scaling_exponents fit lag m q lims ip = Inl DimensionMismatch"
    and "singularity_spectrum fit lag m q lims ip = Inl DimensionMismatch"
    and "\<not> (fst lims = None \<and> snd lims = None) \<or> 2 \<le> length lag \<Longrightarrow>
         slopes fit lag m q lims ip = Inl DimensionMismatch"
proof -
  have given: "slopes fit lag m q l ip = Inl DimensionMismatch"
    if "\<not> (fst l = None \<and> snd l = None)" for l
    by (simp add: slopes_given [OF that] assms)
  show "hurst_exponents fit lag m q lims ip = Inl DimensionMismatch"
    by (simp add: hurst_exponents_eq assms(1) given [OF default_lim_set])
  show t: "scaling_exponents fit lag m q lims ip = Inl DimensionMismatch"
    by (simp add: scaling_exponents_eq assms(1) given [OF default_lim_set])
  show "singularity_spectrum fit lag m q lims ip = Inl DimensionMismatch"
    by (simp add: singularity_spectrum_eq [OF assms(1)] t)
  show "slopes fit lag m q lims ip = Inl DimensionMismatch"
    if "\<not> (fst lims = None \<and> snd lims = None) \<or> 2 \<le> length lag"
  proof (cases "fst lims = None \<and> snd lims = None")
    case True
    with that have "2 \<le> length lag" and "lims = (None, None)"
      by (simp_all add: prod_eq_iff)
    then show ?thesis
      by (simp add: slopes_unset given)
  next
    case False
    then show ?thesis by (rule given)
  qed
qed

lemma dimension_match_passes:
  assumes "clean_q q = Inr qc" and "length m = length qc"
  shows "slopes fit lag m q lims ip \<noteq> Inl DimensionMismatch"
    and "hurst_exponents fit lag m q lims ip \<noteq> Inl DimensionMismatch"
    and "scaling_exponents fit lag m q lims ip \<noteq> Inl DimensionMismatch"
    and "singularity_spectrum fit lag m q lims ip \<noteq> Inl DimensionMismatch"
proof -
  show s: "slopes fit lag m q l ip \<noteq> Inl DimensionMismatch" for l
    using assms
    by (auto simp: slopes_def getitem_def split: sum.splits if_splits
        dest: fit_loop_Inl clean_q_finite)
  show "hurst_exponents fit lag m q lims ip \<noteq> Inl DimensionMismatch"
    using s [of "default_lim lag lims"]
    by (auto simp: hurst_exponents_eq assms(1) split: sum.splits)
  show t: "scaling_exponents fit lag m q lims ip \<noteq> Inl DimensionMismatch"
    using s [of "default_lim lag lims"]
    by (auto simp: scaling_exponents_eq assms(1) split: sum.splits)
  show "singularity_spectrum fit lag m q lims ip \<noteq> Inl DimensionMismatch"
    using t
    by (auto simp: singularity_spectrum_eq [OF assms(1)] gradient_Inl
        split: sum.splits prod.splits)
qed

text \<open>
  C6. A call of \<open>_slopes\<close> with both limits \<open>None\<close> on a \<open>lag\<close> of one entry does not
  reach the dimension check: reading \<open>lag[1]\<close> for the default range raises
  \<open>IndexError\<close>, although the matrix has one column and the cleaned \<open>q\<close> two entries.
  \<open>hurst_exponents\<close> on the same arguments refuses the matrix.
\<close>

theorem slopes_short_lag_failing_input:
  "clean_q [Finite 2, Finite 4] = Inr [Finite 2, Finite 4]
   \<and> length [[Finite 4]] \<noteq> length [Finite 2, Finite 4]
   \<and> slopes fit [16] [[Finite 4]] [Finite 2, Finite 4] (None, None) ip = Inl IndexError
   \<and> hurst_exponents fit [16] [[Finite 4]] [Finite 2, Finite 4] (None, None) ip
       = Inl DimensionMismatch"
proof -
  have c: "clean_q [Finite 2, Finite 4] = Inr [Finite 2, Finite 4]"
    by (simp add: clean_q_Inr fgt_def)
  have l: "length [[Finite 4]] \<noteq> length [Finite 2, Finite 4]"
    by simp
  have s: "slopes fit [16] [[Finite 4]] [Finite 2, Finite 4] (None, None) ip = Inl IndexError"
    by (simp add: slopes_def getitem_def)
  have h: "hurst_exponents fit [16] [[Finite 4]] [Finite 2, Finite 4] (None, None) ip
             = Inl DimensionMismatch"
    by (rule dimension_mismatch_detected(1) [OF c l])
  from c l s h show ?thesis
    by (intro conjI)
qed


end
